theory Spec2Isabelle
  imports Complex_Main
begin

section \<open>Numbers and text\<close>

text \<open>
  The page script \<^verbatim>\<open>frontend/app.js\<close> computes with JavaScript numbers, which are
  binary64 doubles. A number is modelled as the real it stands for. Where the script
  rounds a product for display, to an integer by \<^verbatim>\<open>Math.round\<close> or to one decimal by
  \<^verbatim>\<open>toFixed\<close>, the binary rounding of the product decides the digits shown, and the
  product is rounded to binary64 first, as the script does. Lengths handed to the style
  sheet (the widths of the bars, the offset of the ring) are kept exact, and
  \<^verbatim>\<open>Math.PI\<close> is pi.
  Text is a \<^typ>\<open>string\<close>; a character beyond ASCII is its UTF-8 byte sequence.
\<close>

text \<open>The decimal digit for d below 10 (the only arguments it is applied to).\<close>

definition digit :: "nat \<Rightarrow> char" where
  "digit d = ''0123456789'' ! d"

function decimal :: "nat \<Rightarrow> string" where
  "decimal n = (if n < 10 then [digit n] else decimal (n div 10) @ [digit (n mod 10)])"
  by pat_completeness auto
termination
  by (relation "measure id") auto

declare decimal.simps [simp del]

text \<open>
  Binary64 rounding: the double nearest to a real, a tie going to the even
  significand. \<open>exponentOf x\<close> is the e with \<open>2^e \<le> |x| < 2^(e+1)\<close>; a double has 53
  significant bits, so its last place is worth \<open>2^(e-52)\<close>, and never less than
  \<open>2^(-1074)\<close> (subnormal numbers). Overflow to infinity, from \<open>2^1024\<close> on, is not
  modelled.
\<close>

function bits :: "nat \<Rightarrow> nat" where
  "bits n = (if n = 0 then 0 else Suc (bits (n div 2)))"
  by pat_completeness auto
termination
  by (relation "measure id") auto

declare bits.simps [simp del]

definition exponentOf :: "real \<Rightarrow> int" where
  "exponentOf x =
     (if 1 \<le> \<bar>x\<bar> then int (bits (nat \<lfloor>\<bar>x\<bar>\<rfloor>)) - 1
      else - int (bits (nat (\<lceil>1 / \<bar>x\<bar>\<rceil> - 1))))"

definition roundEven :: "real \<Rightarrow> int" where
  "roundEven x =
     (let n = \<lfloor>x\<rfloor>; f = x - of_int n
      in if f < 1 / 2 then n else if 1 / 2 < f then n + 1 else if even n then n else n + 1)"

definition pow2 :: "int \<Rightarrow> real" where
  "pow2 e = (if 0 \<le> e then 2 ^ nat e else 1 / 2 ^ nat (- e))"

definition binary64 :: "real \<Rightarrow> real" where
  "binary64 x =
     (if x = 0 then 0
      else let ulp = pow2 (max (exponentOf x) (- 1022) - 52)
           in of_int (roundEven (x / ulp)) * ulp)"

text \<open>\<^verbatim>\<open>Math.round(x)\<close>: the integer nearest to x, a tie going up.\<close>

definition Math_round :: "real \<Rightarrow> int" where
  "Math_round x = \<lfloor>x + 1 / 2\<rfloor>"

text \<open>
  \<^verbatim>\<open>x.toFixed(1)\<close>: the sign, then the integer n nearest to ten times the magnitude
  (the larger one on a tie), printed with one digit after the point. The exponent
  notation that JavaScript switches to from 1e21 on is not modelled.
\<close>

definition toFixed1 :: "real \<Rightarrow> string" where
  "toFixed1 x =
     (let n = nat \<lfloor>\<bar>x\<bar> * 10 + 1 / 2\<rfloor>
      in (if x < 0 then ''-'' else '''') @ decimal (n div 10) @ ''.'' @ decimal (n mod 10))"


section \<open>Config\<close>

definition note_glyph :: string where
  "note_glyph = [CHR 0xF0, CHR 0x9F, CHR 0x8E, CHR 0xB5]"

definition GENRE_EMOJIS :: "(string \<times> string) list" where
  "GENRE_EMOJIS =
     [(''blues'', [CHR 0xF0, CHR 0x9F, CHR 0x8E, CHR 0xB7]),
      (''classical'', [CHR 0xF0, CHR 0x9F, CHR 0x8E, CHR 0xBB]),
      (''country'', [CHR 0xF0, CHR 0x9F, CHR 0xA4, CHR 0xA0]),
      (''disco'', [CHR 0xF0, CHR 0x9F, CHR 0xAA, CHR 0xA9]),
      (''hiphop'', [CHR 0xF0, CHR 0x9F, CHR 0x8E, CHR 0xA4]),
      (''jazz'', [CHR 0xF0, CHR 0x9F, CHR 0x8E, CHR 0xB9]),
      (''metal'', [CHR 0xF0, CHR 0x9F, CHR 0xA4, CHR 0x98]),
      (''pop'', [CHR 0xF0, CHR 0x9F, CHR 0x8E, CHR 0xB5]),
      (''reggae'', [CHR 0xF0, CHR 0x9F, CHR 0x8C, CHR 0xB4]),
      (''rock'', [CHR 0xF0, CHR 0x9F, CHR 0x8E, CHR 0xB8])]"

text \<open>
  \<^verbatim>\<open>GENRE_EMOJIS[g] || note\<close>: the table's own keys only; the names every JavaScript
  object inherits (\<^verbatim>\<open>constructor\<close>, \<^verbatim>\<open>toString\<close>, ...) are not genres and are left out.
\<close>

definition emojiOf :: "string \<Rightarrow> string" where
  "emojiOf g = (case map_of GENRE_EMOJIS g of Some e \<Rightarrow> e | None \<Rightarrow> note_glyph)"


section \<open>Prediction results\<close>

record genre_entry =
  entry_genre :: string
  entry_confidence :: real

text \<open>\<^verbatim>\<open>top_genres\<close> may be missing from the reply: \<open>None\<close>.\<close>

record prediction =
  genre :: string
  confidence :: real
  top_genres :: "genre_entry list option"


section \<open>Results display\<close>

text \<open>
  One row of the bar chart: the \<^verbatim>\<open>div\<close> that \<^verbatim>\<open>showResults\<close> creates, with the class
  of the row, its animation delay in seconds, the label, the class and the width (in
  percent) of the bar inside it, and the percentage text.
\<close>

record chart_row =
  row_className :: string
  row_animationDelay :: real
  row_label :: string
  bar_className :: string
  bar_width :: real
  row_percent :: string

text \<open>
  A callback waiting for the next animation frame. \<^verbatim>\<open>showResults\<close> registers, for each
  row, a callback that registers a second one, which sets the width of that row's bar.
  The row is captured by the closure: here, by its address in the store of nodes.
\<close>

datatype frame_cb = SetBarWidth nat real | RequestFrame frame_cb

text \<open>
  The results area of the page. \<open>nodes\<close> is the store of row elements ever created,
  \<open>chartBars\<close> the addresses of the rows that are children of \<^verbatim>\<open>#chartBars\<close> now,
  \<open>frames\<close> the callbacks registered with \<^verbatim>\<open>requestAnimationFrame\<close>. \<open>renders\<close> is
  not part of the page: it counts the calls of \<^verbatim>\<open>showResults\<close>.
\<close>

record results_area =
  resultsSection_display :: string
  resultsSection_inView :: bool
  genreEmoji_text :: string
  genreEmoji_animation :: string
  genreName_text :: string
  confidenceValue_text :: int
  ringFill_strokeDashoffset :: real
  ringGradient_present :: bool
  chartBars :: "nat list"
  nodes :: "nat \<rightharpoonup> chart_row"
  nextNode :: nat
  frames :: "frame_cb list"
  renders :: nat

definition circumference :: real where
  "circumference = 2 * pi * 52"

definition barPct :: "real \<Rightarrow> genre_entry \<Rightarrow> real" where
  "barPct maxConf item = (if maxConf > 0 then (entry_confidence item / maxConf) * 100 else 0)"

definition displayPct :: "genre_entry \<Rightarrow> string" where
  "displayPct item = toFixed1 (binary64 (entry_confidence item * 100))"

text \<open>
  The row as \<^verbatim>\<open>showResults\<close> builds it for the entry at index i: the bar at 0%. The
  script writes the label with \<^verbatim>\<open>innerHTML\<close>; a genre is a label without markup, which
  is displayed as the text it is.
\<close>

definition newRow :: "nat \<Rightarrow> genre_entry \<Rightarrow> chart_row" where
  "newRow i item =
     \<lparr>row_className = ''chart-row'' @ (if i = 0 then '' top'' else ''''),
      row_animationDelay = real i * 0.05,
      row_label = emojiOf (entry_genre item) @ '' '' @ entry_genre item,
      bar_className = ''chart-bar'' @ (if i = 0 then '' top'' else ''''),
      bar_width = 0,
      row_percent = displayPct item @ ''%''\<rparr>"

text \<open>The body of the \<^verbatim>\<open>forEach\<close> callback for one entry.\<close>

definition appendRow :: "real \<Rightarrow> nat \<Rightarrow> genre_entry \<Rightarrow> results_area \<Rightarrow> results_area" where
  "appendRow maxConf i item r =
     r\<lparr>nodes := (nodes r)(nextNode r \<mapsto> newRow i item),
       chartBars := chartBars r @ [nextNode r],
       frames := frames r @ [RequestFrame (SetBarWidth (nextNode r) (barPct maxConf item))],
       nextNode := Suc (nextNode r)\<rparr>"

fun forEachRow :: "real \<Rightarrow> nat \<Rightarrow> genre_entry list \<Rightarrow> results_area \<Rightarrow> results_area" where
  "forEachRow maxConf i [] r = r"
| "forEachRow maxConf i (item # items) r =
     forEachRow maxConf (Suc i) items (appendRow maxConf i item r)"

definition topGenresOf :: "prediction \<Rightarrow> genre_entry list" where
  "topGenresOf data = (case top_genres data of None \<Rightarrow> [] | Some gs \<Rightarrow> gs)"

text \<open>
  Reading \<^verbatim>\<open>xs[i]\<close> gives \<^verbatim>\<open>undefined\<close> out of range, and reading a property of
  \<^verbatim>\<open>undefined\<close> throws a TypeError.
\<close>

datatype js_error = TypeError

fun index :: "'a list \<Rightarrow> nat \<Rightarrow> 'a option" where
  "index [] i = None"
| "index (x # xs) 0 = Some x"
| "index (x # xs) (Suc i) = index xs i"

definition maxConfOf :: "genre_entry list \<Rightarrow> js_error + real" where
  "maxConfOf topGenres =
     (if length topGenres > 0
      then (case index topGenres 0 of
              None \<Rightarrow> Inl TypeError
            | Some g \<Rightarrow> Inr (entry_confidence g))
      else Inr 1)"

text \<open>
  \<^verbatim>\<open>showResults(data)\<close>. It returns the results area after the call (\<open>Inr\<close>), or the
  error thrown together with the results area as the statements before the throw left
  it (\<open>Inl\<close>).
\<close>

definition showResults ::
    "prediction \<Rightarrow> results_area \<Rightarrow> (js_error \<times> results_area) + results_area" where
  "showResults data r =
     (let pct = Math_round (binary64 (confidence data * 100));
          offset = circumference * (1 - confidence data);
          r1 = r\<lparr>resultsSection_display := ''block'',
                 resultsSection_inView := True,
                 genreEmoji_text := emojiOf (genre data),
                 genreEmoji_animation := ''bounceIn 0.5s ease'',
                 genreName_text := genre data,
                 confidenceValue_text := pct,
                 ringFill_strokeDashoffset := offset,
                 ringGradient_present := True,
                 chartBars := [],
                 renders := Suc (renders r)\<rparr>;
          topGenres = topGenresOf data
      in case maxConfOf topGenres of
           Inl e \<Rightarrow> Inl (e, r1)
         | Inr maxConf \<Rightarrow> Inr (forEachRow maxConf 0 topGenres r1))"

text \<open>The state a call leaves behind, whether it returned or threw.\<close>

fun stateOf :: "('e \<times> 'a) + 'a \<Rightarrow> 'a" where
  "stateOf (Inl (e, s)) = s"
| "stateOf (Inr s) = s"

fun returned :: "('e \<times> 'a) + 'a \<Rightarrow> bool" where
  "returned (Inl x) = False"
| "returned (Inr s) = True"

text \<open>Running one registered callback.\<close>

fun runCallback :: "frame_cb \<Rightarrow> results_area \<Rightarrow> results_area" where
  "runCallback (SetBarWidth a w) r =
     (case nodes r a of
        None \<Rightarrow> r
      | Some row \<Rightarrow> r\<lparr>nodes := (nodes r)(a \<mapsto> row\<lparr>bar_width := w\<rparr>)\<rparr>)"
| "runCallback (RequestFrame cb) r = r\<lparr>frames := frames r @ [cb]\<rparr>"

text \<open>
  One animation frame: the callbacks registered so far run in the order of their
  registration; those they register wait for the next frame.
\<close>

definition runFrame :: "results_area \<Rightarrow> results_area" where
  "runFrame r = fold runCallback (frames r) (r\<lparr>frames := []\<rparr>)"

fun runFrames :: "nat \<Rightarrow> results_area \<Rightarrow> results_area" where
  "runFrames 0 r = r"
| "runFrames (Suc k) r = runFrames k (runFrame r)"

text \<open>The rows on display, in order, and the widths of their bars.\<close>

definition shownRows :: "results_area \<Rightarrow> chart_row list" where
  "shownRows r = List.map_filter (nodes r) (chartBars r)"

definition shownWidths :: "results_area \<Rightarrow> real list" where
  "shownWidths r = map bar_width (shownRows r)"

text \<open>Everything the results area displays.\<close>

record results_view =
  view_display :: string
  view_inView :: bool
  view_emoji :: string
  view_animation :: string
  view_name :: string
  view_percent :: int
  view_ringOffset :: real
  view_gradient :: bool
  view_rows :: "chart_row list"

definition viewOf :: "results_area \<Rightarrow> results_view" where
  "viewOf r =
     \<lparr>view_display = resultsSection_display r,
      view_inView = resultsSection_inView r,
      view_emoji = genreEmoji_text r,
      view_animation = genreEmoji_animation r,
      view_name = genreName_text r,
      view_percent = confidenceValue_text r,
      view_ringOffset = ringFill_strokeDashoffset r,
      view_gradient = ringGradient_present r,
      view_rows = shownRows r\<rparr>"

text \<open>
  The row a callback will write to, and the states in which every waiting callback
  captured a row that exists: its address is below the next address to be given out.
\<close>

fun target :: "frame_cb \<Rightarrow> nat" where
  "target (SetBarWidth a w) = a"
| "target (RequestFrame cb) = target cb"

definition closuresValid :: "results_area \<Rightarrow> bool" where
  "closuresValid r = list_all (\<lambda>cb. target cb < nextNode r) (frames r)"

text \<open>The callbacks that running a list of callbacks registers for the next frame.\<close>

fun inner :: "frame_cb list \<Rightarrow> frame_cb list" where
  "inner [] = []"
| "inner (SetBarWidth a w # cbs) = inner cbs"
| "inner (RequestFrame cb # cbs) = cb # inner cbs"

text \<open>The results area of a page on which nothing has been rendered yet.\<close>

definition results0 :: results_area where
  "results0 =
     \<lparr>resultsSection_display = ''none'', resultsSection_inView = False,
      genreEmoji_text = '''', genreEmoji_animation = '''', genreName_text = '''',
      confidenceValue_text = 0, ringFill_strokeDashoffset = 0, ringGradient_present = False,
      chartBars = [], nodes = Map.empty, nextNode = 0, frames = [], renders = 0\<rparr>"

text \<open>
  What the rendering leaves on display, written without the store: the confidence
  that the widths are scaled by, the rows k frames after the call, and the whole view.
\<close>

definition firstConf :: "genre_entry list \<Rightarrow> real" where
  "firstConf gs = (case gs of [] \<Rightarrow> 1 | g # _ \<Rightarrow> entry_confidence g)"

definition rowsAfter :: "nat \<Rightarrow> genre_entry list \<Rightarrow> chart_row list" where
  "rowsAfter k gs =
     map (\<lambda>(i, item). (newRow i item)\<lparr>bar_width := (if 2 \<le> k then barPct (firstConf gs) item else 0)\<rparr>)
       (enumerate 0 gs)"

definition renderedView :: "nat \<Rightarrow> prediction \<Rightarrow> results_view" where
  "renderedView k d =
     \<lparr>view_display = ''block'',
      view_inView = True,
      view_emoji = emojiOf (genre d),
      view_animation = ''bounceIn 0.5s ease'',
      view_name = genre d,
      view_percent = Math_round (binary64 (confidence d * 100)),
      view_ringOffset = circumference * (1 - confidence d),
      view_gradient = True,
      view_rows = rowsAfter k (topGenresOf d)\<rparr>"

definition header ::
    "results_area \<Rightarrow> string \<times> bool \<times> string \<times> string \<times> string \<times> int \<times> real \<times> bool" where
  "header r =
     (resultsSection_display r, resultsSection_inView r, genreEmoji_text r,
      genreEmoji_animation r, genreName_text r, confidenceValue_text r,
      ringFill_strokeDashoffset r, ringGradient_present r)"

text \<open>Two prediction results used as concrete inputs below.\<close>

definition rockResult :: prediction where
  "rockResult =
     \<lparr>genre = ''rock'', confidence = 0.87,
      top_genres = Some [\<lparr>entry_genre = ''rock'', entry_confidence = 0.6\<rparr>,
                         \<lparr>entry_genre = ''pop'', entry_confidence = 0.3\<rparr>,
                         \<lparr>entry_genre = ''jazz'', entry_confidence = 0.1\<rparr>]\<rparr>"

definition jazzResult :: prediction where
  "jazzResult =
     \<lparr>genre = ''jazz'', confidence = 0.5,
      top_genres = Some [\<lparr>entry_genre = ''jazz'', entry_confidence = 0.5\<rparr>,
                         \<lparr>entry_genre = ''blues'', entry_confidence = 0.25\<rparr>]\<rparr>"

text \<open>
  The states that the results area goes through: it starts empty, and then results are
  rendered and animation frames run, in any order.
\<close>

inductive reachableResults :: "results_area \<Rightarrow> bool" where
  initial: "reachableResults results0"
| rendering: "reachableResults r \<Longrightarrow> reachableResults (stateOf (showResults d r))"
| frame: "reachableResults r \<Longrightarrow> reachableResults (runFrame r)"

section \<open>Error notifier\<close>

text \<open>
  The toast of \<^verbatim>\<open>showError\<close>. Time is counted in milliseconds since the page was
  loaded (\<open>clock\<close>). \<open>hideTimers\<close> holds the due times of the callbacks registered
  with \<^verbatim>\<open>setTimeout\<close>; \<^verbatim>\<open>showError\<close> is the only caller of \<^verbatim>\<open>setTimeout\<close>, and each
  of its callbacks hides the toast. No timer is taken out of the list before it fires:
  the script does not call \<^verbatim>\<open>clearTimeout\<close>.
\<close>

record error_toast =
  errorMessage_text :: string
  errorToast_display :: string
  errorToast_animation :: string
  clock :: nat
  hideTimers :: "nat list"

definition showError :: "string \<Rightarrow> error_toast \<Rightarrow> error_toast" where
  "showError msg t =
     t\<lparr>errorMessage_text := msg,
       errorToast_display := ''flex'',
       errorToast_animation := ''toastIn 0.4s ease'',
       hideTimers := hideTimers t @ [clock t + 6000]\<rparr>"

definition errorClose_click :: "error_toast \<Rightarrow> error_toast" where
  "errorClose_click t = t\<lparr>errorToast_display := ''none''\<rparr>"

text \<open>
  The passing of \<open>ms\<close> milliseconds in which no handler of the page runs: the timers
  that have become due fire (each hides the toast) and are gone.
\<close>

definition elapse :: "nat \<Rightarrow> error_toast \<Rightarrow> error_toast" where
  "elapse ms t =
     (let now = clock t + ms;
          due = filter (\<lambda>d. d \<le> now) (hideTimers t)
      in t\<lparr>clock := now,
           hideTimers := filter (\<lambda>d. now < d) (hideTimers t),
           errorToast_display := (if due = [] then errorToast_display t else ''none'')\<rparr>)"

definition toast0 :: error_toast where
  "toast0 =
     \<lparr>errorMessage_text = '''', errorToast_display = ''none'', errorToast_animation = '''',
      clock = 0, hideTimers = []\<rparr>"


section \<open>Health check\<close>

record status_badge =
  badge_online :: bool
  statusText :: string

text \<open>
  How the request to \<^verbatim>\<open>/health\<close> ends: the fetch rejects (a network error), or a
  response with an HTTP status arrives; \<^verbatim>\<open>res.ok\<close> holds for the statuses 200 to 299.
\<close>

datatype health_result = HealthUnreachable | HealthStatus nat

definition res_ok :: "nat \<Rightarrow> bool" where
  "res_ok status = (200 \<le> status \<and> status \<le> 299)"

definition checkHealth :: "health_result \<Rightarrow> status_badge \<Rightarrow> status_badge" where
  "checkHealth h b =
     (case h of
        HealthStatus status \<Rightarrow>
          (if res_ok status then b\<lparr>badge_online := True, statusText := ''Online''\<rparr> else b)
      | HealthUnreachable \<Rightarrow> b\<lparr>badge_online := False, statusText := ''Offline''\<rparr>)"


section \<open>File upload\<close>

record audio_file =
  file_name :: string
  file_size :: nat

record button =
  btn_loading :: bool
  btn_disabled :: bool

definition setLoading :: "bool \<Rightarrow> button \<Rightarrow> button" where
  "setLoading loading btn =
     (if loading then btn\<lparr>btn_loading := True, btn_disabled := True\<rparr>
      else btn\<lparr>btn_loading := False, btn_disabled := False\<rparr>)"

definition formatBytes :: "nat \<Rightarrow> string" where
  "formatBytes bytes =
     (if bytes < 1024 then decimal bytes @ '' B''
      else if bytes < 1048576 then toFixed1 (real bytes / 1024) @ '' KB''
      else toFixed1 (real bytes / 1048576) @ '' MB'')"

text \<open>
  The upload panel. \<open>fileInput_files\<close> is the file list of the file input, which
  \<^verbatim>\<open>fileInput.value = ''\<close> empties.
\<close>

record upload_panel =
  selectedFile :: "audio_file option"
  fileInput_files :: "audio_file list"
  fileName_text :: string
  fileSize_text :: string
  fileInfo_display :: string
  dropZone_display :: string
  dropZone_dragOver :: bool
  btnPredict :: button

definition handleFile :: "audio_file \<Rightarrow> upload_panel \<Rightarrow> upload_panel" where
  "handleFile f u =
     u\<lparr>selectedFile := Some f,
       fileName_text := file_name f,
       fileSize_text := formatBytes (file_size f),
       fileInfo_display := ''flex'',
       dropZone_display := ''none'',
       btnPredict := (btnPredict u)\<lparr>btn_disabled := False\<rparr>\<rparr>"

definition dropZone_dragover :: "upload_panel \<Rightarrow> upload_panel" where
  "dropZone_dragover u = u\<lparr>dropZone_dragOver := True\<rparr>"

definition dropZone_dragleave :: "upload_panel \<Rightarrow> upload_panel" where
  "dropZone_dragleave u = u\<lparr>dropZone_dragOver := False\<rparr>"

text \<open>
  Dropping the files \<open>fs\<close> on the drop zone, and picking the files \<open>fs\<close> in the file
  dialog (the browser has put them into the input when the handler runs). The list
  has a first element exactly when its length is not 0.
\<close>

definition dropZone_drop :: "audio_file list \<Rightarrow> upload_panel \<Rightarrow> upload_panel" where
  "dropZone_drop fs u =
     (let u1 = u\<lparr>dropZone_dragOver := False\<rparr>
      in case fs of [] \<Rightarrow> u1 | f # _ \<Rightarrow> handleFile f u1)"

definition fileInput_change :: "audio_file list \<Rightarrow> upload_panel \<Rightarrow> upload_panel" where
  "fileInput_change fs u =
     (let u1 = u\<lparr>fileInput_files := fs\<rparr>
      in case fs of [] \<Rightarrow> u1 | f # _ \<Rightarrow> handleFile f u1)"

definition fileRemove_click :: "upload_panel \<Rightarrow> upload_panel" where
  "fileRemove_click u =
     u\<lparr>selectedFile := None,
       fileInput_files := [],
       fileInfo_display := ''none'',
       dropZone_display := ''block'',
       btnPredict := (btnPredict u)\<lparr>btn_disabled := True\<rparr>\<rparr>"

definition upload0 :: upload_panel where
  "upload0 =
     \<lparr>selectedFile = None, fileInput_files = [], fileName_text = '''', fileSize_text = '''',
      fileInfo_display = ''none'', dropZone_display = ''block'', dropZone_dragOver = False,
      btnPredict = \<lparr>btn_loading = False, btn_disabled = True\<rparr>\<rparr>"


section \<open>System audio\<close>

text \<open>The slider holds a whole number of seconds, which \<^verbatim>\<open>parseInt\<close> reads back.\<close>

record system_panel =
  durationSlider_value :: nat
  durationValue_text :: string
  btnSystem :: button
  btnSystem_text :: string

definition durationSlider_input :: "nat \<Rightarrow> system_panel \<Rightarrow> system_panel" where
  "durationSlider_input v y = y\<lparr>durationSlider_value := v, durationValue_text := decimal v @ ''s''\<rparr>"

definition system0 :: system_panel where
  "system0 =
     \<lparr>durationSlider_value = 10, durationValue_text = ''10s'',
      btnSystem = \<lparr>btn_loading = False, btn_disabled = False\<rparr>,
      btnSystem_text = ''Start Listening''\<rparr>"

section \<open>Microphone recording\<close>

datatype recorder_state = Inactive | Recording

text \<open>
  The microphone panel: the script's variables, the elements it writes to, and the
  browser objects it creates. Browser objects are numbered in the order of their
  creation:
  \<^item> \<open>trackStops ! s\<close> counts the calls of \<^verbatim>\<open>stop()\<close> on the track of media stream s (a
    stream is live as long as the count is 0); its length is the number of streams
    that \<^verbatim>\<open>getUserMedia\<close> has handed out;
  \<^item> \<open>recorders ! m\<close> is the state of MediaRecorder m;
  \<^item> \<open>contextCloses ! c\<close> counts the calls of \<^verbatim>\<open>close()\<close> on AudioContext c;
  \<^item> \<open>intervals\<close> are the running timers of \<^verbatim>\<open>setInterval\<close>, \<open>drawRequests\<close> the frames
    requested by the waveform's \<^verbatim>\<open>draw\<close>;
  \<^item> \<open>pendingGetUserMedia\<close> counts the calls of \<^verbatim>\<open>startRecording\<close> waiting at
    \<^verbatim>\<open>await getUserMedia\<close>, \<open>pendingStops\<close> the stop events not yet delivered, and
    \<open>uploads\<close> holds the bodies posted by the \<^verbatim>\<open>onstop\<close> handlers waiting for their reply.
  The pixels that \<^verbatim>\<open>draw\<close> paints on the canvas are not modelled.
\<close>

record mic_panel =
  mediaRecorder :: "nat option"
  audioChunks :: "string list"
  recordingTimer :: "nat option"
  recordSeconds :: nat
  audioStream :: "nat option"
  audioContext :: "nat option"
  analyser :: "nat option"
  animFrameId :: "nat option"
  btnRecord_recording :: bool
  recordLabel_text :: string
  recordTimer_display :: string
  timerText_text :: string
  waveCanvas_display :: string
  pendingGetUserMedia :: nat
  trackStops :: "nat list"
  recorders :: "recorder_state list"
  pendingStops :: nat
  uploads :: "string list"
  contextCloses :: "nat list"
  intervals :: "nat list"
  nextTimerId :: nat
  drawRequests :: "nat list"
  nextFrameId :: nat

text \<open>\<^verbatim>\<open>mediaRecorder && mediaRecorder.state === 'recording'\<close>\<close>

definition isRecording :: "mic_panel \<Rightarrow> bool" where
  "isRecording m =
     (case mediaRecorder m of
        None \<Rightarrow> False
      | Some i \<Rightarrow> index (recorders m) i = Some Recording)"

text \<open>
  \<^verbatim>\<open>stopRecording\<close>: \<^verbatim>\<open>mediaRecorder.stop()\<close> makes the recorder inactive and the
  browser will deliver its stop event.
\<close>

definition stopRecording :: "mic_panel \<Rightarrow> mic_panel" where
  "stopRecording m =
     (case mediaRecorder m of
        None \<Rightarrow> m
      | Some i \<Rightarrow>
          (if index (recorders m) i = Some Recording
           then m\<lparr>recorders := (recorders m)[i := Inactive], pendingStops := Suc (pendingStops m)\<rparr>
           else m))"

definition bump :: "nat \<Rightarrow> nat list \<Rightarrow> nat list" where
  "bump i xs = (case index xs i of None \<Rightarrow> xs | Some c \<Rightarrow> xs[i := Suc c])"

definition cleanupAudio :: "mic_panel \<Rightarrow> mic_panel" where
  "cleanupAudio m =
     (let m1 = (case audioStream m of
                  None \<Rightarrow> m
                | Some s \<Rightarrow> m\<lparr>trackStops := bump s (trackStops m), audioStream := None\<rparr>)
      in case audioContext m1 of
           None \<Rightarrow> m1
         | Some c \<Rightarrow> m1\<lparr>contextCloses := bump c (contextCloses m1), audioContext := None\<rparr>)"

text \<open>
  How the media interfaces of the browser answer one call of \<^verbatim>\<open>startRecording\<close>:
  \<^verbatim>\<open>getUserMedia\<close> rejects; or it hands out a stream and then the MediaRecorder
  constructor throws, or \<^verbatim>\<open>mediaRecorder.start()\<close> throws, or the AudioContext
  constructor in \<^verbatim>\<open>startWaveform\<close> throws; or nothing fails.
\<close>

datatype media_outcome =
  PermissionDenied | RecorderThrows | StartThrows | AudioContextThrows | MediaWorks

text \<open>\<^verbatim>\<open>draw()\<close>, as far as the frame requests go.\<close>

definition draw :: "mic_panel \<Rightarrow> mic_panel" where
  "draw m =
     m\<lparr>animFrameId := Some (nextFrameId m),
       drawRequests := drawRequests m @ [nextFrameId m],
       nextFrameId := Suc (nextFrameId m)\<rparr>"

text \<open>\<^verbatim>\<open>startWaveform(stream)\<close> when the AudioContext constructor does not throw.\<close>

definition startWaveform :: "mic_panel \<Rightarrow> mic_panel" where
  "startWaveform m =
     draw (m\<lparr>audioContext := Some (length (contextCloses m)),
             contextCloses := contextCloses m @ [0],
             analyser := Some (length (contextCloses m)),
             waveCanvas_display := ''block''\<rparr>)"

text \<open>
  \<^verbatim>\<open>startRecording\<close> from the point where \<^verbatim>\<open>getUserMedia\<close> has handed out a stream, in
  four stretches; a throw ends the run after the stretch before it.
\<close>

definition acquired :: "mic_panel \<Rightarrow> mic_panel" where
  "acquired m = m\<lparr>audioStream := Some (length (trackStops m)), trackStops := trackStops m @ [0]\<rparr>"

definition recorderCreated :: "mic_panel \<Rightarrow> mic_panel" where
  "recorderCreated m =
     m\<lparr>mediaRecorder := Some (length (recorders m)),
       recorders := recorders m @ [Inactive],
       audioChunks := []\<rparr>"

definition recorderStarted :: "mic_panel \<Rightarrow> mic_panel" where
  "recorderStarted m =
     m\<lparr>recorders := (case mediaRecorder m of None \<Rightarrow> recorders m
                        | Some i \<Rightarrow> (recorders m)[i := Recording]),
       btnRecord_recording := True,
       recordLabel_text := ''Recording... click to stop'',
       recordSeconds := 0,
       timerText_text := ''00:00'',
       recordTimer_display := ''flex'',
       recordingTimer := Some (nextTimerId m),
       intervals := intervals m @ [nextTimerId m],
       nextTimerId := Suc (nextTimerId m)\<rparr>"

text \<open>
  The run of \<^verbatim>\<open>startRecording\<close> after \<^verbatim>\<open>await getUserMedia\<close>, up to its end or to the
  throw; the result says whether the \<^verbatim>\<open>catch\<close> block is entered.
\<close>

definition startRecording_body :: "media_outcome \<Rightarrow> mic_panel \<Rightarrow> bool \<times> mic_panel" where
  "startRecording_body out m =
     (case out of
        PermissionDenied \<Rightarrow> (True, m)
      | RecorderThrows \<Rightarrow> (True, acquired m)
      | StartThrows \<Rightarrow> (True, recorderCreated (acquired m))
      | AudioContextThrows \<Rightarrow> (True, recorderStarted (recorderCreated (acquired m)))
      | MediaWorks \<Rightarrow> (False, startWaveform (recorderStarted (recorderCreated (acquired m)))))"

text \<open>\<^verbatim>\<open>String(n).padStart(2, '0')\<close>\<close>

definition pad2 :: "nat \<Rightarrow> string" where
  "pad2 n = replicate (2 - length (decimal n)) CHR ''0'' @ decimal n"

text \<open>The callback of the recording timer.\<close>

definition timerTick :: "mic_panel \<Rightarrow> mic_panel" where
  "timerTick m =
     (let secs = Suc (recordSeconds m)
      in m\<lparr>recordSeconds := secs,
           timerText_text := pad2 (secs div 60) @ '':'' @ pad2 (secs mod 60)\<rparr>)"

text \<open>\<^verbatim>\<open>ondataavailable\<close>\<close>

definition ondataavailable :: "string \<Rightarrow> mic_panel \<Rightarrow> mic_panel" where
  "ondataavailable chunk m =
     (if length chunk > 0 then m\<lparr>audioChunks := audioChunks m @ [chunk]\<rparr> else m)"

text \<open>
  \<^verbatim>\<open>onstop\<close> up to its request to \<^verbatim>\<open>/predict/record\<close>, whose body is the recorded
  chunks joined.
\<close>

definition onstop_begin :: "mic_panel \<Rightarrow> mic_panel" where
  "onstop_begin m =
     m\<lparr>intervals := (case recordingTimer m of None \<Rightarrow> intervals m
                        | Some i \<Rightarrow> removeAll i (intervals m)),
       drawRequests := (case animFrameId m of None \<Rightarrow> drawRequests m
                           | Some i \<Rightarrow> removeAll i (drawRequests m)),
       waveCanvas_display := ''none'',
       recordTimer_display := ''none'',
       btnRecord_recording := False,
       recordLabel_text := ''Processing...'',
       uploads := uploads m @ [concat (audioChunks m)]\<rparr>"

definition mic0 :: mic_panel where
  "mic0 =
     \<lparr>mediaRecorder = None, audioChunks = [], recordingTimer = None, recordSeconds = 0,
      audioStream = None, audioContext = None, analyser = None, animFrameId = None,
      btnRecord_recording = False, recordLabel_text = ''Click to start recording'',
      recordTimer_display = ''none'', timerText_text = ''00:00'', waveCanvas_display = ''none'',
      pendingGetUserMedia = 0, trackStops = [], recorders = [], pendingStops = 0, uploads = [],
      contextCloses = [], intervals = [], nextTimerId = 0, drawRequests = [], nextFrameId = 0\<rparr>"


section \<open>The page and its handlers\<close>

record page =
  badge :: status_badge
  upload :: upload_panel
  mic :: mic_panel
  system :: system_panel
  results :: results_area
  toast :: error_toast

definition page0 :: page where
  "page0 =
     \<lparr>badge = \<lparr>badge_online = False, statusText = ''Checking...''\<rparr>,
      upload = upload0, mic = mic0, system = system0, results = results0, toast = toast0\<rparr>"

text \<open>
  How a request to one of the predict endpoints ends: the fetch rejects (a network
  error); the body of the response is not JSON, so that \<^verbatim>\<open>res.json()\<close> rejects; a
  success response (2xx) carrying a Prediction Result; or another response, whose
  JSON body has the text \<open>e\<close> as \<^verbatim>\<open>error\<close> (\<open>Some e\<close>) or no such field. A success
  response with another body is not an answer of the interface and is not modelled.
\<close>

datatype fetch_result =
  NetworkError | NotJson | Success prediction | HttpError "string option"

text \<open>\<^verbatim>\<open>data.error || fallback\<close>: the empty text counts as absent.\<close>

definition errorOr :: "string option \<Rightarrow> string \<Rightarrow> string" where
  "errorOr e fallback = (case e of None \<Rightarrow> fallback | Some msg \<Rightarrow> if msg = [] then fallback else msg)"

definition notify :: "string \<Rightarrow> page \<Rightarrow> page" where
  "notify msg p = p\<lparr>toast := showError msg (toast p)\<rparr>"

text \<open>
  The \<^verbatim>\<open>try\<close> block that the three handlers share, from the point where the fetch
  settles: \<^verbatim>\<open>showResults(data)\<close> on success, \<^verbatim>\<open>showError(data.error || failed)\<close> on
  another response, and in the \<^verbatim>\<open>catch\<close> block \<^verbatim>\<open>showError(unreachable)\<close>.
\<close>

definition settled :: "string \<Rightarrow> string \<Rightarrow> fetch_result \<Rightarrow> page \<Rightarrow> page" where
  "settled failed unreachable fr p =
     (case fr of
        NetworkError \<Rightarrow> notify unreachable p
      | NotJson \<Rightarrow> notify unreachable p
      | Success data \<Rightarrow>
          (case showResults data (results p) of
             Inr r \<Rightarrow> p\<lparr>results := r\<rparr>
           | Inl (e, r) \<Rightarrow> notify unreachable (p\<lparr>results := r\<rparr>))
      | HttpError e \<Rightarrow> notify (errorOr e failed) p)"

text \<open>
  The click handler of \<^verbatim>\<open>#btnPredict\<close>, up to its request: the result holds the file
  posted to \<^verbatim>\<open>/predict\<close>, or \<open>None\<close> when the handler returns without a request. Then
  the rest of the handler, which runs when the fetch has settled.
\<close>

definition btnPredict_click :: "page \<Rightarrow> audio_file option \<times> page" where
  "btnPredict_click p =
     (case selectedFile (upload p) of
        None \<Rightarrow> (None, p)
      | Some f \<Rightarrow> (Some f, p\<lparr>upload := (upload p)\<lparr>btnPredict := setLoading True (btnPredict (upload p))\<rparr>\<rparr>))"

definition btnPredict_settled :: "fetch_result \<Rightarrow> page \<Rightarrow> page" where
  "btnPredict_settled fr p =
     (let p1 = settled ''Prediction failed'' ''Could not reach the server. Is it running?'' fr p
      in p1\<lparr>upload := (upload p1)\<lparr>btnPredict := setLoading False (btnPredict (upload p1))\<rparr>\<rparr>)"

text \<open>The click handler of \<^verbatim>\<open>#btnSystem\<close>: the result holds the duration posted.\<close>

definition btnSystem_click :: "page \<Rightarrow> nat \<times> page" where
  "btnSystem_click p =
     (let duration = durationSlider_value (system p)
      in (duration,
          p\<lparr>system := (system p)
               \<lparr>btnSystem := setLoading True (btnSystem (system p)),
                btnSystem_text := ''Listening for '' @ decimal duration @ ''s...''\<rparr>\<rparr>))"

definition btnSystem_settled :: "fetch_result \<Rightarrow> page \<Rightarrow> page" where
  "btnSystem_settled fr p =
     (let p1 = settled ''System audio capture failed'' ''Could not reach the server. Is it running?'' fr p
      in p1\<lparr>system := (system p1)
              \<lparr>btnSystem := setLoading False (btnSystem (system p1)),
               btnSystem_text := ''Start Listening''\<rparr>\<rparr>)"

text \<open>
  The rest of \<^verbatim>\<open>onstop\<close>, which runs when the fetch has settled. The replies arrive
  in the order of the requests.
\<close>

definition onstop_settled :: "fetch_result \<Rightarrow> page \<Rightarrow> page" where
  "onstop_settled fr p =
     (let p1 = settled ''Prediction failed'' ''Could not reach the server.'' fr p
      in p1\<lparr>mic := cleanupAudio ((mic p1)\<lparr>recordLabel_text := ''Click to start recording'',
                                          uploads := tl (uploads (mic p1))\<rparr>)\<rparr>)"

text \<open>
  The click handler of \<^verbatim>\<open>#btnRecord\<close>. \<^verbatim>\<open>startRecording\<close> runs up to
  \<^verbatim>\<open>await getUserMedia\<close> and waits there.
\<close>

definition btnRecord_click :: "page \<Rightarrow> page" where
  "btnRecord_click p =
     (if isRecording (mic p) then p\<lparr>mic := stopRecording (mic p)\<rparr>
      else p\<lparr>mic := (mic p)\<lparr>pendingGetUserMedia := Suc (pendingGetUserMedia (mic p))\<rparr>\<rparr>)"

text \<open>\<^verbatim>\<open>startRecording\<close> goes on when \<^verbatim>\<open>getUserMedia\<close> has settled.\<close>

definition startRecording_resume :: "media_outcome \<Rightarrow> page \<Rightarrow> page" where
  "startRecording_resume out p =
     (let m = (mic p)\<lparr>pendingGetUserMedia := pendingGetUserMedia (mic p) - 1\<rparr>;
          (thrown, m1) = startRecording_body out m;
          p1 = p\<lparr>mic := m1\<rparr>
      in if thrown then notify ''Microphone access denied. Please allow microphone access.'' p1
         else p1)"

text \<open>
  What can happen on the microphone panel, one event at a time. An event that the
  state does not allow (a promise settling that nobody waits for, a stop event that
  no recorder has queued, a timer that is not running) leaves the page as it is.
\<close>

datatype mic_event =
    RecordClick
  | GetUserMediaSettles media_outcome
  | DataAvailable string
  | RecorderEnds nat
  | StopEvent
  | UploadSettles fetch_result
  | TimerTick
  | WaveFrame

definition micStep :: "mic_event \<Rightarrow> page \<Rightarrow> page" where
  "micStep ev p =
     (case ev of
        RecordClick \<Rightarrow> btnRecord_click p
      | GetUserMediaSettles out \<Rightarrow>
          (if pendingGetUserMedia (mic p) > 0 then startRecording_resume out p else p)
      | DataAvailable chunk \<Rightarrow>
          (if mediaRecorder (mic p) \<noteq> None then p\<lparr>mic := ondataavailable chunk (mic p)\<rparr> else p)
      | RecorderEnds i \<Rightarrow>
          (if index (recorders (mic p)) i = Some Recording
           then p\<lparr>mic := (mic p)\<lparr>recorders := (recorders (mic p))[i := Inactive],
                                  pendingStops := Suc (pendingStops (mic p))\<rparr>\<rparr>
           else p)
      | StopEvent \<Rightarrow>
          (if pendingStops (mic p) > 0
           then p\<lparr>mic := onstop_begin ((mic p)\<lparr>pendingStops := pendingStops (mic p) - 1\<rparr>)\<rparr>
           else p)
      | UploadSettles fr \<Rightarrow>
          (if uploads (mic p) \<noteq> [] then onstop_settled fr p else p)
      | TimerTick \<Rightarrow>
          (if intervals (mic p) \<noteq> [] then p\<lparr>mic := timerTick (mic p)\<rparr> else p)
      | WaveFrame \<Rightarrow>
          (case drawRequests (mic p) of
             [] \<Rightarrow> p
           | f # fs \<Rightarrow> p\<lparr>mic := draw ((mic p)\<lparr>drawRequests := fs\<rparr>)\<rparr>))"

fun micRun :: "mic_event list \<Rightarrow> page \<Rightarrow> page" where
  "micRun [] p = p"
| "micRun (ev # evs) p = micRun evs (micStep ev p)"

text \<open>
  Two conditions on a media stream s that the script can no longer release. It is
  \<open>leaked\<close> when its track has not been stopped and \<^verbatim>\<open>audioStream\<close> does not refer
  to it. It is \<open>stranded\<close> when its track has not been stopped and, as long as
  \<^verbatim>\<open>audioStream\<close> still refers to it, no recorder is recording, no stop event is
  queued and no \<^verbatim>\<open>onstop\<close> handler waits for its reply (\<open>quiet\<close>), so that nothing is
  under way that would reach \<^verbatim>\<open>cleanupAudio\<close>.
\<close>

definition leaked :: "nat \<Rightarrow> mic_panel \<Rightarrow> bool" where
  "leaked s m = (index (trackStops m) s = Some 0 \<and> audioStream m \<noteq> Some s)"

definition quiet :: "mic_panel \<Rightarrow> bool" where
  "quiet m = (pendingStops m = 0 \<and> uploads m = [] \<and> Recording \<notin> set (recorders m))"

definition stranded :: "nat \<Rightarrow> mic_panel \<Rightarrow> bool" where
  "stranded s m =
     (index (trackStops m) s = Some 0 \<and> (if audioStream m = Some s then quiet m else True))"

section \<open>Properties of the results display\<close>

text \<open>
  The loop over the entries in closed form: it gives the rows the next free addresses,
  appends them to the chart and registers one callback for each.
\<close>

lemma forEachRow_eq:
  "forEachRow m i items r =
     r\<lparr>nodes := (\<lambda>a. if nextNode r \<le> a \<and> a < nextNode r + length items
                      then Some (newRow (i + (a - nextNode r)) (items ! (a - nextNode r)))
                      else nodes r a),
       chartBars := chartBars r @ [nextNode r ..< nextNode r + length items],
       frames := frames r @ map (\<lambda>k. RequestFrame (SetBarWidth (nextNode r + k) (barPct m (items ! k))))
                               [0 ..< length items],
       nextNode := nextNode r + length items\<rparr>"
proof (induction items arbitrary: i r)
  case Nil
  show ?case
    by (rule results_area.equality) (auto simp: fun_eq_iff)
next
  case (Cons item items)
  have c: "nextNode r # [Suc (nextNode r)..<Suc (nextNode r + length items)]
         = [nextNode r..<Suc (nextNode r + length items)]"
    using upt_conv_Cons [of "nextNode r" "Suc (nextNode r + length items)"] by simp
  show ?case
    unfolding forEachRow.simps Cons.IH
    by (rule results_area.equality)
      (auto simp: appendRow_def fun_eq_iff nth_Cons' Suc_diff_Suc map_upt_Suc c simp del: upt_Suc)
qed

text \<open>
  Running callbacks: what they register, what they leave alone, and that callbacks
  that captured rows below address n do not touch the rows from n on.
\<close>

lemma fold_frames: "frames (fold runCallback cbs r) = frames r @ inner cbs"
  by (induction cbs arbitrary: r rule: inner.induct) (auto split: option.splits)

lemma fold_chartBars: "chartBars (fold runCallback cbs r) = chartBars r"
  by (induction cbs arbitrary: r rule: inner.induct) (auto split: option.splits)

lemma fold_nextNode: "nextNode (fold runCallback cbs r) = nextNode r"
  by (induction cbs arbitrary: r rule: inner.induct) (auto split: option.splits)

lemma fold_nodes_above:
  "list_all (\<lambda>cb. target cb < n) cbs \<Longrightarrow> n \<le> a \<Longrightarrow> nodes (fold runCallback cbs r) a = nodes r a"
  by (induction cbs arbitrary: r rule: inner.induct) (auto split: option.splits)

lemma inner_stale: "list_all (\<lambda>cb. target cb < n) cbs \<Longrightarrow> list_all (\<lambda>cb. target cb < n) (inner cbs)"
  by (induction cbs rule: inner.induct) auto

lemma fold_request: "fold runCallback (map RequestFrame cs) r = r\<lparr>frames := frames r @ cs\<rparr>"
  by (induction cs arbitrary: r) auto

lemma inner_request: "inner (map RequestFrame cs) = cs"
  by (induction cs) auto

lemma inner_append: "inner (xs @ ys) = inner xs @ inner ys"
  by (induction xs rule: inner.induct) auto

lemma inner_set: "inner (map (\<lambda>k. SetBarWidth (f k) (w k)) ks) = []"
  by (induction ks) auto

lemma fold_set_nodes:
  "nodes (fold runCallback (map (\<lambda>k. SetBarWidth (n + k) (w k)) [0 ..< len]) r) a =
     (if n \<le> a \<and> a < n + len
      then map_option (\<lambda>row. row\<lparr>bar_width := w (a - n)\<rparr>) (nodes r a)
      else nodes r a)"
proof (induction len arbitrary: a)
  case 0
  show ?case by auto
next
  case (Suc len)
  let ?r = "fold runCallback (map (\<lambda>k. SetBarWidth (n + k) (w k)) [0 ..< len]) r"
  have last: "nodes ?r (n + len) = nodes r (n + len)"
    using Suc.IH [of "n + len"] by simp
  show ?case
  proof (cases "nodes r (n + len)")
    case None
    with last Suc.IH [of a] show ?thesis
      by (auto simp: less_Suc_eq)
  next
    case (Some row)
    with last Suc.IH [of a] show ?thesis
      by (auto simp: less_Suc_eq)
  qed
qed

lemma fold_request_nodes: "nodes (fold runCallback (map RequestFrame cs) r) = nodes r"
  by (simp add: fold_request)

lemma fold_header: "header (fold runCallback cbs r) = header r"
  by (induction cbs arbitrary: r rule: inner.induct) (auto split: option.splits simp: header_def)

lemma runFrame_frames: "frames (runFrame r) = inner (frames r)"
  by (simp add: runFrame_def fold_frames)

lemma runFrame_chartBars: "chartBars (runFrame r) = chartBars r"
  by (simp add: runFrame_def fold_chartBars)

lemma runFrame_nextNode: "nextNode (runFrame r) = nextNode r"
  by (simp add: runFrame_def fold_nextNode)

lemma runFrame_header: "header (runFrame r) = header r"
  by (simp add: runFrame_def fold_header) (simp add: header_def)

lemma runFrame_nodes_above:
  "list_all (\<lambda>cb. target cb < n) (frames r) \<Longrightarrow> n \<le> a \<Longrightarrow> nodes (runFrame r) a = nodes r a"
  by (simp add: runFrame_def fold_nodes_above)

lemma runFrames_stale:
  "list_all (\<lambda>cb. target cb < n) (frames r) \<Longrightarrow>
     list_all (\<lambda>cb. target cb < n) (frames (runFrames k r))"
  by (induction k arbitrary: r) (simp_all add: runFrame_frames inner_stale)

lemma runFrames_nodes_above:
  "list_all (\<lambda>cb. target cb < n) (frames r) \<Longrightarrow> n \<le> a \<Longrightarrow> nodes (runFrames k r) a = nodes r a"
  by (induction k arbitrary: r) (simp_all add: runFrame_frames inner_stale runFrame_nodes_above)

lemma runFrames_chartBars: "chartBars (runFrames k r) = chartBars r"
  by (induction k arbitrary: r) (simp_all add: runFrame_chartBars)

lemma runFrames_nextNode: "nextNode (runFrames k r) = nextNode r"
  by (induction k arbitrary: r) (simp_all add: runFrame_nextNode)

lemma runFrames_header: "header (runFrames k r) = header r"
  by (induction k arbitrary: r) (simp_all add: runFrame_header)

text \<open>First frame after a rendering: the outer callbacks register the inner ones.\<close>

lemma runFrame_outer:
  assumes "frames r = st @ map RequestFrame cs" and "list_all (\<lambda>cb. target cb < n) st"
  shows "frames (runFrame r) = inner st @ cs"
    and "n \<le> a \<Longrightarrow> nodes (runFrame r) a = nodes r a"
proof -
  show "frames (runFrame r) = inner st @ cs"
    by (simp add: runFrame_frames assms(1) inner_append inner_request)
  show "nodes (runFrame r) a = nodes r a" if "n \<le> a"
    using that assms(2)
    by (simp add: runFrame_def assms(1) fold_request fold_nodes_above)
qed

text \<open>Second frame: the inner callbacks set the widths.\<close>

lemma runFrame_inner:
  assumes "frames r = st @ map (\<lambda>k. SetBarWidth (n + k) (w k)) [0 ..< len]"
    and "list_all (\<lambda>cb. target cb < n) st"
  shows "frames (runFrame r) = inner st"
    and "n \<le> a \<Longrightarrow> nodes (runFrame r) a =
          (if a < n + len then map_option (\<lambda>row. row\<lparr>bar_width := w (a - n)\<rparr>) (nodes r a)
           else nodes r a)"
proof -
  show "frames (runFrame r) = inner st"
    by (simp add: runFrame_frames assms(1) inner_append inner_set)
  show "nodes (runFrame r) a =
          (if a < n + len then map_option (\<lambda>row. row\<lparr>bar_width := w (a - n)\<rparr>) (nodes r a)
           else nodes r a)" if "n \<le> a"
    using that assms(2)
    by (simp add: runFrame_def assms(1) fold_set_nodes fold_nodes_above)
qed


text \<open>The rows on display k frames after a rendering.\<close>

lemma maxConfOf_eq: "maxConfOf gs = Inr (firstConf gs)"
  by (cases gs) (simp_all add: maxConfOf_def firstConf_def)

lemma map_filter_upt:
  "(\<And>j. j < len \<Longrightarrow> f (n + j) = Some (g j)) \<Longrightarrow> List.map_filter f [n ..< n + len] = map g [0 ..< len]"
proof (induction len)
  case 0
  show ?case by (simp add: List.map_filter_def)
next
  case (Suc len)
  have "List.map_filter f [n ..< n + len] = map g [0 ..< len]"
    using Suc.prems by (intro Suc.IH) simp
  moreover have "f (n + len) = Some (g len)"
    using Suc.prems by simp
  ultimately show ?case
    by (simp add: List.map_filter_def)
qed

lemma map_enumerate: "map (\<lambda>(i, x). F i x) (enumerate 0 xs) = map (\<lambda>j. F j (xs ! j)) [0 ..< length xs]"
  by (rule nth_equalityI) (simp_all add: nth_enumerate_eq)

lemma showResults_state:
  "showResults d r =
     Inr (forEachRow (firstConf (topGenresOf d)) 0 (topGenresOf d)
       (r\<lparr>resultsSection_display := ''block'',
          resultsSection_inView := True,
          genreEmoji_text := emojiOf (genre d),
          genreEmoji_animation := ''bounceIn 0.5s ease'',
          genreName_text := genre d,
          confidenceValue_text := Math_round (binary64 (confidence d * 100)),
          ringFill_strokeDashoffset := circumference * (1 - confidence d),
          ringGradient_present := True,
          chartBars := [],
          renders := Suc (renders r)\<rparr>))"
  by (simp add: showResults_def maxConfOf_eq Let_def)

lemma rows_after_render:
  assumes "closuresValid r"
  shows "shownRows (runFrames k (stateOf (showResults d r))) = rowsAfter k (topGenresOf d)"
proof -
  define gs where "gs = topGenresOf d"
  define n where "n = nextNode r"
  define w where "w = (\<lambda>j. barPct (firstConf gs) (gs ! j))"
  define r1 where "r1 = stateOf (showResults d r)"
  have stale: "list_all (\<lambda>cb. target cb < n) (frames r)"
    using assms by (simp add: closuresValid_def n_def)
  have bars1: "chartBars r1 = [n ..< n + length gs]"
    by (simp add: r1_def showResults_state forEachRow_eq gs_def n_def)
  have frames1: "frames r1 = frames r @ map RequestFrame (map (\<lambda>j. SetBarWidth (n + j) (w j)) [0 ..< length gs])"
    by (simp add: r1_def showResults_state forEachRow_eq gs_def n_def w_def comp_def)
  have nodes1: "nodes r1 (n + j) = Some (newRow j (gs ! j))" if "j < length gs" for j
    using that by (simp add: r1_def showResults_state forEachRow_eq gs_def n_def)
  have rows: "shownRows (runFrames k r1) = map g [0 ..< length gs]"
    if "\<And>j. j < length gs \<Longrightarrow> nodes (runFrames k r1) (n + j) = Some (g j)" for g
    using that by (simp add: shownRows_def runFrames_chartBars bars1 map_filter_upt)
  have goal: "rowsAfter k gs =
      map (\<lambda>j. (newRow j (gs ! j))\<lparr>bar_width := (if 2 \<le> k then w j else 0)\<rparr>) [0 ..< length gs]"
    by (simp add: rowsAfter_def map_enumerate w_def)
  have width0: "(newRow j x)\<lparr>bar_width := 0\<rparr> = newRow j x" for j x
    by (simp add: newRow_def)
  consider "k = 0" | "k = 1" | j where "k = Suc (Suc j)"
    by (metis One_nat_def not0_implies_Suc)
  then have "shownRows (runFrames k r1) =
      map (\<lambda>j. (newRow j (gs ! j))\<lparr>bar_width := (if 2 \<le> k then w j else 0)\<rparr>) [0 ..< length gs]"
  proof cases
    case 1
    show ?thesis
      by (rule rows) (simp add: 1 nodes1 width0)
  next
    case 2
    show ?thesis
      by (rule rows) (simp add: 2 runFrame_outer(2) [OF frames1 stale] nodes1 width0)
  next
    case (3 j)
    let ?r2 = "runFrame r1"
    let ?r3 = "runFrame ?r2"
    have frames2: "frames ?r2 = inner (frames r) @ map (\<lambda>j. SetBarWidth (n + j) (w j)) [0 ..< length gs]"
      by (rule runFrame_outer(1) [OF frames1 stale])
    have stale2: "list_all (\<lambda>cb. target cb < n) (inner (frames r))"
      by (rule inner_stale [OF stale])
    have frames3: "frames ?r3 = inner (inner (frames r))"
      by (rule runFrame_inner(1) [OF frames2 stale2])
    have stale3: "list_all (\<lambda>cb. target cb < n) (frames ?r3)"
      unfolding frames3 by (rule inner_stale [OF stale2])
    have nodes3: "nodes ?r3 (n + i) = Some ((newRow i (gs ! i))\<lparr>bar_width := w i\<rparr>)"
      if "i < length gs" for i
      using that
      by (simp add: runFrame_inner(2) [OF frames2 stale2] runFrame_outer(2) [OF frames1 stale] nodes1)
    show ?thesis
      by (rule rows) (simp add: 3 runFrames_nodes_above [OF stale3] nodes3)
  qed
  then have "shownRows (runFrames k r1) = rowsAfter k gs"
    by (simp only: goal)
  then show ?thesis
    unfolding r1_def gs_def .
qed

lemma showResults_header:
  "header (stateOf (showResults d r)) =
     (''block'', True, emojiOf (genre d), ''bounceIn 0.5s ease'', genre d,
      Math_round (binary64 (confidence d * 100)), circumference * (1 - confidence d), True)"
  by (simp add: showResults_state forEachRow_eq header_def)

lemma view_after_render:
  assumes "closuresValid r"
  shows "viewOf (runFrames k (stateOf (showResults d r))) = renderedView k d"
proof -
  have "header (runFrames k (stateOf (showResults d r))) =
     (''block'', True, emojiOf (genre d), ''bounceIn 0.5s ease'', genre d,
      Math_round (binary64 (confidence d * 100)), circumference * (1 - confidence d), True)"
    by (simp only: runFrames_header showResults_header)
  then show ?thesis
    by (simp add: viewOf_def renderedView_def header_def rows_after_render [OF assms])
qed

lemma closuresValid_runFrames: "closuresValid r \<Longrightarrow> closuresValid (runFrames k r)"
  by (simp add: closuresValid_def runFrames_nextNode runFrames_stale)

lemma closuresValid_showResults:
  assumes "closuresValid r"
  shows "closuresValid (stateOf (showResults d r))"
proof -
  have "list_all (\<lambda>cb. target cb < nextNode r + length (topGenresOf d)) (frames r)"
    using assms by (auto simp: closuresValid_def list_all_iff)
  then show ?thesis
    by (auto simp: closuresValid_def showResults_state forEachRow_eq list_all_iff)
qed

lemma showResults_returns: "returned (showResults d r)"
  by (simp add: showResults_state)

lemma sorted_first_max:
  assumes "sorted_wrt (\<ge>) (map entry_confidence (g # gs))"
  shows "Max (set (map entry_confidence (g # gs))) = entry_confidence g"
  using assms by (intro Max_eqI) auto

lemma widths_rowsAfter:
  "map bar_width (rowsAfter k gs) = map (\<lambda>g. if 2 \<le> k then barPct (firstConf gs) g else 0) gs"
  unfolding rowsAfter_def map_enumerate
  by (rule nth_equalityI) simp_all

text \<open>In every state that the results area goes through the waiting callbacks are valid.\<close>

lemma reachableResults_closuresValid: "reachableResults r \<Longrightarrow> closuresValid r"
proof (induction rule: reachableResults.induct)
  case initial
  show ?case by (simp add: closuresValid_def results0_def)
next
  case (rendering r d)
  then show ?case by (simp add: closuresValid_showResults)
next
  case (frame r)
  then show ?case using closuresValid_runFrames [of r 1] by simp
qed

text \<open>
  The widths as the code computes them, for any list: each confidence over the
  confidence of the first entry, times 100, or 0 when the first confidence is not
  positive. On a list that is not in descending order this is not the quotient by the
  highest confidence: for the confidences 0.3, 0.6 the widths are 100 and 200.
\<close>

lemma bar_widths_relative_to_first:
  assumes "closuresValid r" and "top_genres d = Some (g # gs)"
  shows "shownWidths (runFrames (Suc (Suc k)) (stateOf (showResults d r))) =
           map (\<lambda>x. if entry_confidence g > 0 then entry_confidence x / entry_confidence g * 100 else 0)
             (g # gs)"
  using rows_after_render [OF assms(1), of "Suc (Suc k)" d] assms(2)
  by (simp add: shownWidths_def topGenresOf_def widths_rowsAfter firstConf_def barPct_def
      del: runFrames.simps)

lemma bar_widths_unsorted_example:
  "shownWidths (runFrames 2 (stateOf (showResults
      \<lparr>genre = ''pop'', confidence = 0.6,
       top_genres = Some [\<lparr>entry_genre = ''rock'', entry_confidence = 0.3\<rparr>,
                          \<lparr>entry_genre = ''pop'', entry_confidence = 0.6\<rparr>]\<rparr> results0)))
     = [100, 200]"
proof -
  have "closuresValid results0"
    by (simp add: closuresValid_def results0_def)
  from bar_widths_relative_to_first [OF this, of _ _ _ 0] show ?thesis
    by (simp add: numeral_2_eq_2)
qed




section \<open>Properties of the handlers\<close>

lemma index_eq: "index xs i = (if i < length xs then Some (xs ! i) else None)"
  by (induction xs i rule: index.induct) simp_all

lemma settled_mic: "mic (settled failed unreachable fr p) = mic p"
  by (simp add: settled_def notify_def split: fetch_result.splits sum.splits prod.splits)

lemma micRun_append: "micRun (evs @ evs') p = micRun evs' (micRun evs p)"
  by (induction evs arbitrary: p) simp_all

lemmas mic_defs =
  micStep_def btnRecord_click_def isRecording_def stopRecording_def startRecording_resume_def
  startRecording_body_def acquired_def recorderCreated_def recorderStarted_def
  startWaveform_def draw_def onstop_begin_def onstop_settled_def notify_def cleanupAudio_def
  bump_def ondataavailable_def timerTick_def Let_def

text \<open>No event releases a stream that is leaked or stranded.\<close>

lemma leaked_step: "leaked s (mic p) \<Longrightarrow> leaked s (mic (micStep ev p))"
  by (cases ev)
    (auto simp: leaked_def mic_defs settled_mic index_eq nth_append nth_list_update
      split: option.splits media_outcome.splits list.splits if_splits)

lemma leaked_run: "leaked s (mic p) \<Longrightarrow> leaked s (mic (micRun evs p))"
  by (induction evs arbitrary: p) (simp_all add: leaked_step)

lemma stranded_step: "stranded s (mic p) \<Longrightarrow> stranded s (mic (micStep ev p))"
  by (cases ev)
    (auto simp: stranded_def quiet_def mic_defs settled_mic index_eq nth_append nth_list_update
      in_set_conv_nth
      split: option.splits media_outcome.splits list.splits if_splits)

lemma stranded_run: "stranded s (mic p) \<Longrightarrow> stranded s (mic (micRun evs p))"
  by (induction evs arbitrary: p) (simp_all add: stranded_step)

text \<open>
  \<^verbatim>\<open>cleanupAudio\<close> stops the stream and closes the context that the variables refer
  to, once each, and a second call does nothing.
\<close>

lemma cleanupAudio_once:
  assumes "audioStream m = Some s" and "index (trackStops m) s = Some k"
    and "audioContext m = Some c" and "index (contextCloses m) c = Some j"
  shows "index (trackStops (cleanupAudio m)) s = Some (Suc k)"
    and "index (contextCloses (cleanupAudio m)) c = Some (Suc j)"
    and "cleanupAudio (cleanupAudio m) = cleanupAudio m"
  using assms by (auto simp: cleanupAudio_def bump_def index_eq split: if_splits)

text \<open>Time passing in two parts is time passing once.\<close>

lemma elapse_elapse: "elapse b (elapse a t) = elapse (a + b) t"
  by (rule error_toast.equality)
    (auto simp: elapse_def Let_def filter_empty_conv add.assoc intro!: filter_cong)

text \<open>
  While the recorder that \<^verbatim>\<open>mediaRecorder\<close> refers to is recording, a click on the record
  button stops it and does not start another recording.
\<close>

lemma click_while_recording_stops:
  assumes "isRecording (mic p)"
  shows "pendingGetUserMedia (mic (btnRecord_click p)) = pendingGetUserMedia (mic p)"
    and "pendingStops (mic (btnRecord_click p)) = Suc (pendingStops (mic p))"
    and "\<not> isRecording (mic (btnRecord_click p))"
    and "trackStops (mic (btnRecord_click p)) = trackStops (mic p)"
  using assms
  by (auto simp: btnRecord_click_def isRecording_def stopRecording_def index_eq
      split: option.splits if_splits)

text \<open>
  One message: it replaces the text on display and shows the toast; the close button
  hides the toast, and it stays hidden as time passes; the message's own timer hides
  it when 6 seconds have passed; and while no timer is due it stays on display.
\<close>

lemma toast_single_message:
  "errorMessage_text (showError msg t) = msg"
  "errorToast_display (showError msg t) = ''flex''"
  "errorToast_display (errorClose_click (showError msg t)) = ''none''"
  "errorToast_display (elapse later (errorClose_click (elapse ms (showError msg t)))) = ''none''"
  "errorToast_display (elapse (6000 + later) (showError msg t)) = ''none''"
  "ms < 6000 \<Longrightarrow> list_all (\<lambda>due. clock t + ms < due) (hideTimers t) \<Longrightarrow>
     errorToast_display (elapse ms (showError msg t)) = ''flex''
     \<and> errorMessage_text (elapse ms (showError msg t)) = msg"
  by (auto simp: elapse_def showError_def errorClose_click_def Let_def filter_empty_conv list_all_iff
      not_less)

section \<open>The text helpers on concrete inputs\<close>

lemma decimal_examples: "decimal 0 = ''0''" "decimal 7 = ''7''" "decimal 1234 = ''1234''"
  by (simp_all add: decimal.simps digit_def)

lemma toFixed1_examples:
  "toFixed1 (0.6 * 100) = ''60.0''" "toFixed1 (1 / 3 * 100) = ''33.3''"
  "toFixed1 1.25 = ''1.3''" "toFixed1 (- 0.01) = ''-0.0''"
  by (simp_all add: toFixed1_def decimal.simps digit_def)

lemma formatBytes_examples:
  "formatBytes 512 = ''512 B''" "formatBytes 1536 = ''1.5 KB''" "formatBytes 5242880 = ''5.0 MB''"
  by (simp_all add: formatBytes_def toFixed1_def decimal.simps digit_def)

lemma timerTick_example:
  "timerText_text (timerTick (mic0\<lparr>recordSeconds := 64\<rparr>)) = ''01:05''"
  by (simp add: timerTick_def pad2_def mic0_def decimal.simps digit_def)

lemma emojiOf_examples:
  "emojiOf ''rock'' = [CHR 0xF0, CHR 0x9F, CHR 0x8E, CHR 0xB8]" "emojiOf ''polka'' = note_glyph"
  by (simp_all add: emojiOf_def GENRE_EMOJIS_def)

lemma btnSystem_click_example:
  "fst (btnSystem_click page0) = 10"
  "btnSystem_text (system (snd (btnSystem_click page0))) = ''Listening for 10s...''"
  "btn_disabled (btnSystem (system (snd (btnSystem_click page0)))) = True"
  by (simp_all add: btnSystem_click_def page0_def system0_def setLoading_def decimal.simps digit_def)

lemma btnPredict_click_example:
  "fst (btnPredict_click page0) = None"
  "fst (btnPredict_click (page0\<lparr>upload := handleFile f upload0\<rparr>)) = Some f"
  by (simp_all add: btnPredict_click_def page0_def upload0_def handleFile_def)

text \<open>A prediction that arrives is rendered, and an error reply is shown with its text.\<close>

lemma settled_examples:
  "renders (results (btnPredict_settled (Success d) p)) = Suc (renders (results p))"
  "toast (btnPredict_settled (Success d) p) = toast p"
  "errorMessage_text (toast (btnPredict_settled (HttpError (Some ''No audio'')) p)) = ''No audio''"
  "errorMessage_text (toast (btnPredict_settled (HttpError None) p)) = ''Prediction failed''"
  "errorMessage_text (toast (btnSystem_settled (HttpError (Some '''')) p)) = ''System audio capture failed''"
  by (simp_all add: btnPredict_settled_def btnSystem_settled_def settled_def notify_def
      showError_def errorOr_def showResults_state forEachRow_eq Let_def)

text \<open>
  Binary64 rounding on concrete inputs: numbers as a reply is parsed, and products that
  the rounding carries to or keeps off a half.
\<close>

lemmas binary64_defs = binary64_def exponentOf_def roundEven_def pow2_def bits.simps Let_def

lemma binary64_examples:
  "binary64 1 = 1" "binary64 0.5 = 0.5" "binary64 99.5 = 99.5" "binary64 (- 0.75) = - 0.75"
  "binary64 0.1 = 3602879701896397 / 36028797018963968"
  "binary64 0.575 = 2589569785738035 / 4503599627370496"
  "binary64 (1 / 3) = 6004799503160661 / 18014398509481984"
  by (simp_all add: binary64_defs)

lemma percent_examples:
  "Math_round (binary64 (binary64 0.575 * 100)) = 57"
  "Math_round (binary64 (binary64 0.285 * 100)) = 28"
  "Math_round (binary64 (binary64 0.5 * 100)) = 50"
  by (simp_all add: binary64_defs Math_round_def)

lemma displayPct_example:
  "displayPct \<lparr>entry_genre = ''rock'', entry_confidence = binary64 0.0015\<rparr> = ''0.1''"
  by (simp add: displayPct_def toFixed1_def binary64_defs decimal.simps digit_def)

text \<open>Rounding to the nearest integer moves a number by a half at most.\<close>

lemma roundEven_near: "\<bar>of_int (roundEven x) - x\<bar> \<le> 1 / 2"
  unfolding roundEven_def Let_def by (auto simp: abs_le_iff)

section \<open>Claims about the results display\<close>

text \<open>
  C1. The entries of \<^verbatim>\<open>top_genres\<close> are displayed as bars, in list order, and once the
  two animation frames after the call have run (and at any later frame), the width of
  each bar in percent is that entry's confidence divided by the highest confidence in
  the list, times 100. A Prediction Result lists its entries by descending confidence,
  none negative; where the highest confidence is 0 the quotient does not exist and the
  width is 0. The code scales by the first entry, which is the highest in such a list.
  For confidences 0.6, 0.3, 0.1 the widths are 100, 50 and 50/3 (16.7 to one decimal).
\<close>

theorem bar_widths_relative_to_highest:
  assumes "closuresValid r"
    and "top_genres d = Some gs"
    and "sorted_wrt (\<ge>) (map entry_confidence gs)"
    and "\<forall>g \<in> set gs. 0 \<le> entry_confidence g"
  shows "shownWidths (runFrames (Suc (Suc k)) (stateOf (showResults d r))) =
           map (\<lambda>g. if Max (set (map entry_confidence gs)) = 0 then 0
                     else entry_confidence g / Max (set (map entry_confidence gs)) * 100) gs"
proof -
  have rows: "shownWidths (runFrames (Suc (Suc k)) (stateOf (showResults d r))) =
      map (barPct (firstConf gs)) gs"
    using rows_after_render [OF assms(1), of "Suc (Suc k)" d] assms(2)
    by (simp add: shownWidths_def topGenresOf_def widths_rowsAfter del: runFrames.simps)
  show ?thesis
  proof (cases gs)
    case Nil
    with rows show ?thesis by simp
  next
    case (Cons g gs')
    have hi: "Max (set (map entry_confidence gs)) = entry_confidence g"
      using assms(3) unfolding Cons by (rule sorted_first_max)
    have "0 \<le> entry_confidence g"
      using assms(4) Cons by simp
    then have "barPct (firstConf gs) x =
        (if entry_confidence g = 0 then 0 else entry_confidence x / entry_confidence g * 100)" for x
      by (auto simp: barPct_def firstConf_def Cons)
    then show ?thesis
      unfolding rows hi by simp
  qed
qed

theorem bar_widths_relative_to_highest_witness:
  "closuresValid results0
   \<and> top_genres rockResult = Some (topGenresOf rockResult)
   \<and> sorted_wrt (\<ge>) (map entry_confidence (topGenresOf rockResult))
   \<and> map entry_confidence (topGenresOf rockResult) = [0.6, 0.3, 0.1]
   \<and> shownWidths (runFrames (Suc (Suc 0)) (stateOf (showResults rockResult results0)))
       = [100, 50, 50 / 3]
   \<and> toFixed1 (50 / 3) = ''16.7''"
proof -
  have h1: "closuresValid results0"
    by (simp add: closuresValid_def results0_def)
  have h2: "top_genres rockResult = Some (topGenresOf rockResult)"
    by (simp add: rockResult_def topGenresOf_def)
  have h3: "sorted_wrt (\<ge>) (map entry_confidence (topGenresOf rockResult))"
    by (simp add: rockResult_def topGenresOf_def)
  have h4: "\<forall>g \<in> set (topGenresOf rockResult). 0 \<le> entry_confidence g"
    by (simp add: rockResult_def topGenresOf_def)
  have cs: "map entry_confidence (topGenresOf rockResult) = [0.6, 0.3, 0.1]"
    by (simp add: rockResult_def topGenresOf_def)
  have "shownWidths (runFrames (Suc (Suc 0)) (stateOf (showResults rockResult results0)))
       = [100, 50, 50 / 3]"
    unfolding bar_widths_relative_to_highest [OF h1 h2 h3 h4, of 0] cs
    by (simp add: rockResult_def topGenresOf_def)
  moreover have "toFixed1 (50 / 3) = ''16.7''"
    by (simp add: toFixed1_def decimal.simps digit_def)
  ultimately show ?thesis
    using h1 h2 h3 cs by blast
qed



text \<open>
  C9. Each call of \<^verbatim>\<open>showResults\<close> replaces everything the results area displays: the
  view k frames after the call is the same whatever was displayed before. So showing
  a result a second time, any number j of frames after the first time, leaves the
  display as showing it once does.
\<close>

theorem showResults_idempotent:
  assumes "closuresValid r" and "closuresValid r'"
  shows "returned (showResults d r)
       \<and> viewOf (runFrames k (stateOf (showResults d r)))
         = viewOf (runFrames k (stateOf (showResults d r')))
       \<and> viewOf (runFrames k (stateOf (showResults d (runFrames j (stateOf (showResults d r))))))
         = viewOf (runFrames k (stateOf (showResults d r)))"
proof -
  have "closuresValid (runFrames j (stateOf (showResults d r)))"
    by (intro closuresValid_runFrames closuresValid_showResults assms)
  then show ?thesis
    using assms by (simp add: view_after_render showResults_returns)
qed

theorem showResults_idempotent_witness:
  "closuresValid results0
   \<and> closuresValid (stateOf (showResults jazzResult results0))
   \<and> viewOf (runFrames 2 (stateOf (showResults rockResult results0)))
     = viewOf (runFrames 2 (stateOf (showResults rockResult (stateOf (showResults jazzResult results0)))))
   \<and> viewOf (runFrames 2 (stateOf (showResults rockResult
        (runFrames 1 (stateOf (showResults rockResult results0))))))
     = viewOf (runFrames 2 (stateOf (showResults rockResult results0)))"
proof -
  have h1: "closuresValid results0"
    by (simp add: closuresValid_def results0_def)
  have h2: "closuresValid (stateOf (showResults jazzResult results0))"
    by (simp add: closuresValid_def results0_def showResults_def jazzResult_def topGenresOf_def
        maxConfOf_def appendRow_def Let_def)
  show ?thesis
    using h1 h2 showResults_idempotent [OF h1 h2, of rockResult 2 1] by simp
qed

text \<open>
  C10. \<^verbatim>\<open>showResults\<close> returns on every prediction result, without throwing. When
  \<^verbatim>\<open>top_genres\<close> is absent or empty no bar is displayed, and when the confidence of the
  first entry is 0 every bar has width 0, at every frame after the call.
\<close>

theorem showResults_total_on_degenerate:
  assumes "closuresValid r"
  shows "returned (showResults d r)
       \<and> shownRows (runFrames k (stateOf (showResults (d\<lparr>top_genres := None\<rparr>) r))) = []
       \<and> shownRows (runFrames k (stateOf (showResults (d\<lparr>top_genres := Some []\<rparr>) r))) = []
       \<and> shownWidths (runFrames k (stateOf (showResults
            (d\<lparr>top_genres := Some (g\<lparr>entry_confidence := 0\<rparr> # gs)\<rparr>) r)))
          = replicate (Suc (length gs)) 0"
  by (simp add: showResults_returns shownWidths_def rows_after_render [OF assms] topGenresOf_def
      widths_rowsAfter firstConf_def barPct_def map_replicate_const)
    (simp add: rowsAfter_def)

theorem showResults_total_on_degenerate_witness:
  "closuresValid (stateOf (showResults jazzResult results0))
   \<and> returned (showResults (rockResult\<lparr>top_genres := None\<rparr>) (stateOf (showResults jazzResult results0)))
   \<and> shownRows (runFrames 1 (stateOf (showResults (rockResult\<lparr>top_genres := None\<rparr>)
        (stateOf (showResults jazzResult results0))))) = []
   \<and> shownWidths (runFrames 2 (stateOf (showResults
        (rockResult\<lparr>top_genres := Some [\<lparr>entry_genre = ''rock'', entry_confidence = 0\<rparr>,
                                          \<lparr>entry_genre = ''pop'', entry_confidence = 0.4\<rparr>]\<rparr>)
        (stateOf (showResults jazzResult results0))))) = [0, 0]"
proof -
  have h: "closuresValid (stateOf (showResults jazzResult results0))"
    by (simp add: closuresValid_def results0_def showResults_def jazzResult_def topGenresOf_def
        maxConfOf_def appendRow_def Let_def)
  have a: "returned (showResults (rockResult\<lparr>top_genres := None\<rparr>) (stateOf (showResults jazzResult results0)))"
    using showResults_total_on_degenerate [OF h, of "rockResult\<lparr>top_genres := None\<rparr>"] by simp
  have b: "shownRows (runFrames 1 (stateOf (showResults (rockResult\<lparr>top_genres := None\<rparr>)
        (stateOf (showResults jazzResult results0))))) = []"
    using showResults_total_on_degenerate [OF h, of rockResult 1] by simp
  have c: "shownWidths (runFrames 2 (stateOf (showResults
        (rockResult\<lparr>top_genres := Some [\<lparr>entry_genre = ''rock'', entry_confidence = 0\<rparr>,
                                          \<lparr>entry_genre = ''pop'', entry_confidence = 0.4\<rparr>]\<rparr>)
        (stateOf (showResults jazzResult results0))))) = [0, 0]"
    using showResults_total_on_degenerate [OF h, of rockResult 2
        "\<lparr>entry_genre = ''rock'', entry_confidence = 1\<rparr>"
        "[\<lparr>entry_genre = ''pop'', entry_confidence = 0.4\<rparr>]"]
    by (simp add: numeral_2_eq_2)
  from h a b c show ?thesis
    by blast
qed

section \<open>Claims about the handlers\<close>

text \<open>
  C2. A health check marks the badge online on a success response and offline when
  the fetch rejects. On a response that is not a success (here 503) the code leaves
  the badge as it is, so a badge that was online stays online where the claim wants
  it offline.
\<close>

theorem checkHealth_http_error_leaves_badge:
  "checkHealth (HealthStatus 503) \<lparr>badge_online = True, statusText = ''Online''\<rparr>
     = \<lparr>badge_online = True, statusText = ''Online''\<rparr>
   \<and> checkHealth (HealthStatus 200) b = b\<lparr>badge_online := True, statusText := ''Online''\<rparr>
   \<and> checkHealth HealthUnreachable b = b\<lparr>badge_online := False, statusText := ''Offline''\<rparr>"
  by (simp add: checkHealth_def res_ok_def)

text \<open>
  C3. When a recording is stopped and the reply to its upload has arrived, the track of
  its stream has been stopped once and its audio context closed once. On an error during
  start the code does no teardown: when the stream has been handed out and the
  MediaRecorder constructor throws, the error is shown and the track of stream 0 is not
  stopped, neither then nor by any events that follow. And when a recording is started
  again while the upload of the one before is on its way, the reply tears down the new
  recording (stream 1, still recording) and stream 0 is never stopped.
\<close>

theorem teardown_missed_on_start_error:
  "trackStops (mic (micRun [RecordClick, GetUserMediaSettles MediaWorks, RecordClick, StopEvent,
       UploadSettles NetworkError] page0)) = [1]
   \<and> contextCloses (mic (micRun [RecordClick, GetUserMediaSettles MediaWorks, RecordClick, StopEvent,
       UploadSettles NetworkError] page0)) = [1]
   \<and> audioStream (mic (micRun [RecordClick, GetUserMediaSettles RecorderThrows] page0)) = Some 0
   \<and> errorMessage_text (toast (micRun [RecordClick, GetUserMediaSettles RecorderThrows] page0))
       = ''Microphone access denied. Please allow microphone access.''
   \<and> index (trackStops (mic (micRun ([RecordClick, GetUserMediaSettles RecorderThrows] @ evs) page0))) 0
       = Some 0
   \<and> trackStops (mic (micRun [RecordClick, GetUserMediaSettles MediaWorks, RecordClick, StopEvent,
       RecordClick, GetUserMediaSettles MediaWorks, UploadSettles NetworkError] page0)) = [0, 1]
   \<and> recorders (mic (micRun [RecordClick, GetUserMediaSettles MediaWorks, RecordClick, StopEvent,
       RecordClick, GetUserMediaSettles MediaWorks, UploadSettles NetworkError] page0))
       = [Inactive, Recording]
   \<and> index (trackStops (mic (micRun ([RecordClick, GetUserMediaSettles MediaWorks, RecordClick,
       StopEvent, RecordClick, GetUserMediaSettles MediaWorks, UploadSettles NetworkError] @ evs')
       page0))) 0 = Some 0"
proof -
  let ?failed = "micRun [RecordClick, GetUserMediaSettles RecorderThrows] page0"
  let ?again = "micRun [RecordClick, GetUserMediaSettles MediaWorks, RecordClick, StopEvent,
       RecordClick, GetUserMediaSettles MediaWorks, UploadSettles NetworkError] page0"
  have "stranded 0 (mic ?failed)"
    by (simp add: stranded_def quiet_def mic_defs page0_def mic0_def)
  then have "stranded 0 (mic (micRun evs ?failed))"
    by (rule stranded_run)
  then have failed: "index (trackStops (mic (micRun evs ?failed))) 0 = Some 0"
    by (simp add: stranded_def)
  have "leaked 0 (mic ?again)"
    by (simp add: leaked_def mic_defs settled_def showError_def page0_def mic0_def toast0_def)
  then have "leaked 0 (mic (micRun evs' ?again))"
    by (rule leaked_run)
  then have again: "index (trackStops (mic (micRun evs' ?again))) 0 = Some 0"
    by (simp add: leaked_def)
  show ?thesis
    unfolding micRun_append
    by (intro conjI failed again)
      (simp_all add: mic_defs settled_def showError_def page0_def mic0_def toast0_def)
qed

text \<open>
  C4. A message shown alone stays on display for 6 seconds and is hidden then, or
  earlier by the close button. But \<^verbatim>\<open>showError\<close> does not clear the timer of the
  message before: when A is shown at time 0 and B at 5000 ms, the timer of A fires at
  6000 ms and hides the toast while it shows B, 1000 ms after B was shown (at 5999 ms B
  was still on display) and without a click on the close button. The claim wants B on
  display for its own 6 seconds.
\<close>

theorem stale_timer_hides_later_message:
  "errorMessage_text (elapse 999 (showError ''B'' (elapse 5000 (showError ''A'' toast0)))) = ''B''
   \<and> errorToast_display (elapse 999 (showError ''B'' (elapse 5000 (showError ''A'' toast0)))) = ''flex''
   \<and> clock (elapse 1000 (showError ''B'' (elapse 5000 (showError ''A'' toast0)))) = 6000
   \<and> errorMessage_text (elapse 1000 (showError ''B'' (elapse 5000 (showError ''A'' toast0)))) = ''B''
   \<and> errorToast_display (elapse 1000 (showError ''B'' (elapse 5000 (showError ''A'' toast0)))) = ''none''
   \<and> errorToast_display (elapse 5999 (showError ''B'' toast0)) = ''flex''
   \<and> errorToast_display (elapse 6000 (showError ''B'' toast0)) = ''none''"
  by (simp add: elapse_def showError_def toast0_def Let_def)

text \<open>
  C5. When the request of any of the three predict handlers fails with a network
  error, the rest of the handler shows a message in the error toast, and
  \<^verbatim>\<open>showResults\<close> is not called: the count of its calls and the whole results area
  are as before.
\<close>

theorem network_error_notifies_without_rendering:
  "errorToast_display (toast (btnPredict_settled NetworkError p)) = ''flex''
   \<and> errorMessage_text (toast (btnPredict_settled NetworkError p))
       = ''Could not reach the server. Is it running?''
   \<and> renders (results (btnPredict_settled NetworkError p)) = renders (results p)
   \<and> results (btnPredict_settled NetworkError p) = results p
   \<and> errorToast_display (toast (onstop_settled NetworkError p)) = ''flex''
   \<and> errorMessage_text (toast (onstop_settled NetworkError p)) = ''Could not reach the server.''
   \<and> renders (results (onstop_settled NetworkError p)) = renders (results p)
   \<and> results (onstop_settled NetworkError p) = results p
   \<and> errorToast_display (toast (btnSystem_settled NetworkError p)) = ''flex''
   \<and> errorMessage_text (toast (btnSystem_settled NetworkError p))
       = ''Could not reach the server. Is it running?''
   \<and> renders (results (btnSystem_settled NetworkError p)) = renders (results p)
   \<and> results (btnSystem_settled NetworkError p) = results p"
  by (simp add: btnPredict_settled_def onstop_settled_def btnSystem_settled_def settled_def
      notify_def showError_def Let_def)

text \<open>
  C7. A second click on the record button stops the recording when the first
  \<^verbatim>\<open>startRecording\<close> has got its stream and started the recorder. When the second click
  comes while the first call still waits for \<^verbatim>\<open>getUserMedia\<close>, it starts a second
  call: two streams are handed out, both live, with two recorders recording, and no
  stop is queued. The first stream is never stopped, whatever follows.
\<close>

theorem second_click_while_pending_acquires_second_stream:
  "recorders (mic (micRun [RecordClick, GetUserMediaSettles MediaWorks, RecordClick] page0)) = [Inactive]
   \<and> trackStops (mic (micRun [RecordClick, GetUserMediaSettles MediaWorks, RecordClick] page0)) = [0]
   \<and> pendingStops (mic (micRun [RecordClick, GetUserMediaSettles MediaWorks, RecordClick] page0)) = 1
   \<and> pendingGetUserMedia (mic (micRun [RecordClick, RecordClick] page0)) = 2
   \<and> trackStops (mic (micRun [RecordClick, RecordClick, GetUserMediaSettles MediaWorks,
        GetUserMediaSettles MediaWorks] page0)) = [0, 0]
   \<and> recorders (mic (micRun [RecordClick, RecordClick, GetUserMediaSettles MediaWorks,
        GetUserMediaSettles MediaWorks] page0)) = [Recording, Recording]
   \<and> pendingStops (mic (micRun [RecordClick, RecordClick, GetUserMediaSettles MediaWorks,
        GetUserMediaSettles MediaWorks] page0)) = 0
   \<and> index (trackStops (mic (micRun ([RecordClick, RecordClick, GetUserMediaSettles MediaWorks,
        GetUserMediaSettles MediaWorks] @ evs) page0))) 0 = Some 0"
proof -
  let ?twice = "micRun [RecordClick, RecordClick, GetUserMediaSettles MediaWorks,
        GetUserMediaSettles MediaWorks] page0"
  have "leaked 0 (mic ?twice)"
    by (simp add: leaked_def mic_defs page0_def mic0_def)
  then have "leaked 0 (mic (micRun evs ?twice))"
    by (rule leaked_run)
  then have never: "index (trackStops (mic (micRun evs ?twice))) 0 = Some 0"
    by (simp add: leaked_def)
  show ?thesis
    unfolding micRun_append
    by (intro conjI never) (simp_all add: mic_defs page0_def mic0_def)
qed

text \<open>
  C8. Selecting a file, by the file dialog or by dropping it on the drop zone, enables
  the predict button and makes it the selected file. Removing the file disables the
  button, clears the selected file and the file input, hides the file information and
  shows the drop zone again, as on the page without a file.
\<close>

theorem file_selection_toggles_submission:
  "btn_disabled (btnPredict (handleFile f u)) = False
   \<and> selectedFile (handleFile f u) = Some f
   \<and> btn_disabled (btnPredict (fileInput_change (f # fs) u)) = False
   \<and> selectedFile (fileInput_change (f # fs) u) = Some f
   \<and> btn_disabled (btnPredict (dropZone_drop (f # fs) u)) = False
   \<and> selectedFile (dropZone_drop (f # fs) u) = Some f
   \<and> btn_disabled (btnPredict (fileRemove_click u)) = True
   \<and> selectedFile (fileRemove_click u) = None
   \<and> fileInput_files (fileRemove_click u) = []
   \<and> dropZone_display (fileRemove_click u) = ''block''
   \<and> fileInfo_display (fileRemove_click u) = ''none''
   \<and> dropZone_dragOver (fileRemove_click (dropZone_drop (f # fs) u)) = False
   \<and> dropZone_display (fileRemove_click (handleFile f upload0)) = dropZone_display upload0
   \<and> fileInfo_display (fileRemove_click (handleFile f upload0)) = fileInfo_display upload0
   \<and> btnPredict (fileRemove_click (handleFile f upload0)) = btnPredict upload0"
  by (simp add: handleFile_def fileInput_change_def dropZone_drop_def fileRemove_click_def
      upload0_def Let_def)

end
